theory Spec2Isabelle
  imports Main "HOL-Library.Sublist"
begin

section \<open>Python values used by frontier\_utils.py\<close>

text \<open>
  A Python \<open>str\<close> is a sequence of Unicode code points: it is modelled as a list of
  natural numbers, one per character. \<open>str\<close> turns an ASCII literal into such a list.

  Exceptions are values: a function that can raise returns \<open>error + 'a\<close>, with
  \<open>Inl\<close> the exception that leaves the function.
\<close>

type_synonym pystr = "nat list"

definition str :: "string \<Rightarrow> pystr" where
  "str s = map of_char s"

datatype error = IndexError | ValueError pystr | TypeError pystr

subsection \<open>\<open>xs[i]\<close> and \<open>xs[-1]\<close>\<close>

definition get_item :: "'a list \<Rightarrow> nat \<Rightarrow> error + 'a" where
  "get_item xs i = (if i < length xs then Inr (xs ! i) else Inl IndexError)"

definition get_last :: "'a list \<Rightarrow> error + 'a" where
  "get_last xs = (case xs of [] \<Rightarrow> Inl IndexError | _ # _ \<Rightarrow> Inr (last xs))"

subsection \<open>\<open>str.find\<close>, \<open>str.split\<close>, \<open>str.join\<close>, \<open>str.upper\<close>\<close>

text \<open>\<open>s.find(sub)\<close>: the lowest index at which \<open>sub\<close> occurs in \<open>s\<close>, or \<open>-1\<close>.\<close>

fun find_str :: "pystr \<Rightarrow> pystr \<Rightarrow> int" where
  "find_str [] sub = (if sub = [] then 0 else - 1)"
| "find_str (c # cs) sub =
     (if prefix sub (c # cs) then 0
      else (let r = find_str cs sub in if r < 0 then - 1 else r + 1))"

text \<open>
  \<open>s.split(sep)\<close> for a non-empty \<open>sep\<close>: cut at every occurrence of \<open>sep\<close>, found
  from left to right without overlap. \<open>cur\<close> collects the piece being read.
\<close>

function split_from :: "pystr \<Rightarrow> pystr \<Rightarrow> pystr \<Rightarrow> pystr list" where
  "split_from cur [] sep = [cur]"
| "split_from cur (c # cs) sep =
     (if sep \<noteq> [] \<and> prefix sep (c # cs)
      then cur # split_from [] (drop (length sep) (c # cs)) sep
      else split_from (cur @ [c]) cs sep)"
  by pat_completeness auto
termination
  by (relation "measure (\<lambda>(cur, s, sep). length s)") auto

definition split_sep :: "pystr \<Rightarrow> pystr \<Rightarrow> pystr list" where
  "split_sep s sep = split_from [] s sep"

text \<open>
  The code points at which \<open>s.split()\<close> cuts, those for which \<open>str.isspace\<close> holds:
  U+0009 to U+000D, U+001C to U+0020, U+0085, U+00A0, U+1680, U+2000 to U+200A, U+2028,
  U+2029, U+202F, U+205F and U+3000.
\<close>

definition is_space :: "nat \<Rightarrow> bool" where
  "is_space c =
     ((0x09 \<le> c \<and> c \<le> 0x0D) \<or> (0x1C \<le> c \<and> c \<le> 0x20) \<or> c = 0x85 \<or> c = 0xA0
      \<or> c = 0x1680 \<or> (0x2000 \<le> c \<and> c \<le> 0x200A) \<or> c = 0x2028 \<or> c = 0x2029
      \<or> c = 0x202F \<or> c = 0x205F \<or> c = 0x3000)"

text \<open>
  \<open>s.split()\<close>: the maximal runs of non-whitespace characters of \<open>s\<close>, in order.
  \<open>cur\<close> collects the word being read.
\<close>

fun words_from :: "pystr \<Rightarrow> pystr \<Rightarrow> pystr list" where
  "words_from cur [] = (if cur = [] then [] else [cur])"
| "words_from cur (c # cs) =
     (if is_space c then (if cur = [] then words_from [] cs else cur # words_from [] cs)
      else words_from (cur @ [c]) cs)"

definition split_ws :: "pystr \<Rightarrow> pystr list" where
  "split_ws s = words_from [] s"

fun join_str :: "pystr \<Rightarrow> pystr list \<Rightarrow> pystr" where
  "join_str sep [] = []"
| "join_str sep [x] = x"
| "join_str sep (x # y # ys) = x @ sep @ join_str sep (y # ys)"

text \<open>
  \<open>s.upper()\<close> replaces every character by its uppercase mapping, which may be several
  characters long (\<open>U+00DF\<close> becomes \<open>SS\<close>) and does not depend on the neighbours. The
  mapping is a table of the interpreter's Unicode database, not of this repository: it
  is the parameter \<open>up\<close>, the uppercase mapping of one code point.
\<close>

definition upper_str :: "(nat \<Rightarrow> pystr) \<Rightarrow> pystr \<Rightarrow> pystr" where
  "upper_str up s = concat (map up s)"

section \<open>get\_ctests\<close>

definition CmdStr :: pystr where
  "CmdStr = str '': Test command: ''"

definition DirStr :: pystr where
  "DirStr = str '': Working Directory:''"

definition TestStr :: pystr where
  "TestStr = str ''Test''"

text \<open>The f-string \<open>f"{Cmd},{Exe},{Dir},{Test}"\<close>.\<close>

definition fmt_record :: "pystr \<Rightarrow> pystr \<Rightarrow> pystr \<Rightarrow> pystr \<Rightarrow> pystr" where
  "fmt_record Cmd Exe Dir Test = Cmd @ str '','' @ Exe @ str '','' @ Dir @ str '','' @ Test"

text \<open>
  One pass through the body of the \<open>while\<close> loop, started with the cursor at \<open>index\<close>:
  the cursor and the record list it leaves for the next iteration (after a \<open>continue\<close>
  or at the end of the body), or the exception raised by an index out of range.
\<close>

definition loop_body :: "pystr list \<Rightarrow> nat \<Rightarrow> pystr list \<Rightarrow> error + (nat \<times> pystr list)" where
  "loop_body lines index ctests =
     (case get_item lines index of Inl e \<Rightarrow> Inl e | Inr line \<Rightarrow>
     (let index = index + 1;
          posCmd = find_str line CmdStr in
      if posCmd < 0 then Inr (index, ctests) else
     (let Cmd = drop (nat (posCmd + int (length CmdStr))) line in
     (case get_last (split_ws Cmd) of Inl e \<Rightarrow> Inl e | Inr Exe \<Rightarrow>
     (case get_item lines index of Inl e \<Rightarrow> Inl e | Inr line \<Rightarrow>
     (let index = index + 1;
          posDir = find_str line DirStr in
      if posDir < 0 then Inr (index, ctests) else
     (let Dir = drop (nat (posDir + int (length DirStr))) line in
     (case get_item lines index of Inl e \<Rightarrow> Inl e | Inr line \<Rightarrow>
     (let index = index + 1;
          posTest = find_str line TestStr in
      if posTest < 0 then Inr (index, ctests) else
     (case get_last (split_ws line) of Inl e \<Rightarrow> Inl e | Inr Test \<Rightarrow>
      Inr (index, ctests @ [fmt_record Cmd Exe Dir Test])))))))))))"

function while_loop :: "pystr list \<Rightarrow> nat \<Rightarrow> pystr list \<Rightarrow> error + pystr list" where
  "while_loop lines index ctests =
     (if index < length lines
      then (case loop_body lines index ctests of
              Inl e \<Rightarrow> Inl e
            | Inr (index', ctests') \<Rightarrow> while_loop lines index' ctests')
      else Inr ctests)"
  by pat_completeness auto
termination
proof (relation "measure (\<lambda>(lines, index, ctests). length lines - index)")
  show "wf (measure (\<lambda>(lines, index, ctests). length lines - index))"
    by simp
next
  fix lines :: "pystr list" and index :: nat and ctests x2 index' ctests'
  assume lt: "index < length lines"
    and body: "loop_body lines index ctests = Inr x2"
    and x2: "(index', ctests') = x2"
  from body x2 have "index < index'"
    by (auto simp: loop_body_def Let_def split: sum.splits if_splits)
  with lt show "((lines, index', ctests'), (lines, index, ctests))
      \<in> measure (\<lambda>(lines, index, ctests). length lines - index)"
    by simp
qed

declare while_loop.simps [simp del]

definition get_ctests :: "pystr \<Rightarrow> error + pystr" where
  "get_ctests ctest_output =
     (let lines = split_sep ctest_output (str ''_NEWLINE_'') in
      case while_loop lines 0 [] of
        Inl e \<Rightarrow> Inl e
      | Inr ctests \<Rightarrow> Inr (join_str (str '';'') ctests))"

section \<open>The string helpers\<close>

definition reverse_words :: "pystr \<Rightarrow> pystr" where
  "reverse_words input_str =
     (let words = split_ws input_str in join_str (str '';'') (rev words))"

definition to_upper :: "(nat \<Rightarrow> pystr) \<Rightarrow> pystr \<Rightarrow> pystr" where
  "to_upper up input_str =
     (let words = split_ws input_str in join_str (str '';'') (map (upper_str up) words))"

definition vowels :: pystr where
  "vowels = str ''aeiouAEIOU''"

definition remove_vowels :: "pystr \<Rightarrow> pystr" where
  "remove_vowels input_str =
     join_str (str '';'')
       (map (\<lambda>char. [char]) (filter (\<lambda>char. char \<notin> set vowels) input_str))"

section \<open>The dispatcher\<close>

text \<open>
  The objects bound in the module's namespace when \<open>main\<close> runs: the four helpers (each
  takes one string), \<open>main\<close> itself (it takes no argument), and objects that are not
  callable (the modules \<open>sys\<close> and \<open>re\<close>, and the attributes CPython gives every script).
\<close>

datatype pyobj = Function "pystr \<Rightarrow> error + pystr" | MainFunction | NotCallable

definition globals :: "(nat \<Rightarrow> pystr) \<Rightarrow> pystr \<rightharpoonup> pyobj" where
  "globals up = map_of
     [(str ''__name__'', NotCallable), (str ''__doc__'', NotCallable),
      (str ''__package__'', NotCallable), (str ''__loader__'', NotCallable),
      (str ''__spec__'', NotCallable), (str ''__annotations__'', NotCallable),
      (str ''__builtins__'', NotCallable), (str ''__file__'', NotCallable),
      (str ''__cached__'', NotCallable),
      (str ''sys'', NotCallable), (str ''re'', NotCallable),
      (str ''get_ctests'', Function get_ctests),
      (str ''reverse_words'', Function (\<lambda>s. Inr (reverse_words s))),
      (str ''to_upper'', Function (\<lambda>s. Inr (to_upper up s))),
      (str ''remove_vowels'', Function (\<lambda>s. Inr (remove_vowels s))),
      (str ''main'', MainFunction)]"

fun callable :: "pyobj \<Rightarrow> bool" where
  "callable (Function f) = True"
| "callable MainFunction = True"
| "callable NotCallable = False"

text \<open>\<open>func(input_argument)\<close>: a call with one positional argument.\<close>

fun call :: "pyobj \<Rightarrow> pystr \<Rightarrow> error + pystr" where
  "call (Function f) x = f x"
| "call MainFunction x =
     Inl (TypeError (str ''main() takes 0 positional arguments but 1 was given''))"
| "call NotCallable x = Inl (TypeError (str ''object is not callable''))"

text \<open>
  What a run of \<open>main\<close> leaves behind: the text written to standard output, and either
  the exception that left \<open>main\<close> or its return value (\<open>None\<close> for Python's \<open>None\<close>).
\<close>

record outcome =
  printed :: pystr
  returned :: "error + pystr option"

definition main :: "(nat \<Rightarrow> pystr) \<Rightarrow> pystr list \<Rightarrow> outcome" where
  "main up argv =
     (if length argv < 3 then \<lparr>printed = [], returned = Inr (Some [])\<rparr> else
      let function_name = argv ! 1;
          input_argument = join_str (str '' '') (drop 2 argv) in
      case globals up function_name of
        None \<Rightarrow>
          \<lparr>printed = [],
           returned = Inl (ValueError (str ''No function named '' @ [0x27] @ function_name
                                        @ [0x27] @ str '' found.''))\<rparr>
      | Some func \<Rightarrow>
          if \<not> callable func
          then \<lparr>printed = [],
                returned = Inl (ValueError (function_name @ str '' is not callable''))\<rparr>
          else (case call func input_argument of
                  Inl e \<Rightarrow> \<lparr>printed = [], returned = Inl e\<rparr>
                | Inr result \<Rightarrow> \<lparr>printed = result @ [0x0A], returned = Inr None\<rparr>))"

section \<open>Notions of the specification\<close>

text \<open>The four functions the dispatcher exposes by name.\<close>

definition exposed :: "pystr set" where
  "exposed = {str ''get_ctests'', str ''reverse_words'', str ''to_upper'', str ''remove_vowels''}"

text \<open>
  The specification's \<open>UnknownFunction\<close> error is the \<open>ValueError\<close> that \<open>main\<close> raises
  for a name it does not find or finds bound to an object that is not callable. A run
  fails with it when that exception leaves \<open>main\<close> and nothing was printed.
\<close>

fun is_ValueError :: "error \<Rightarrow> bool" where
  "is_ValueError (ValueError msg) = True"
| "is_ValueError e = False"

definition fails_UnknownFunction :: "outcome \<Rightarrow> bool" where
  "fails_UnknownFunction out =
     (printed out = [] \<and> (case returned out of Inl e \<Rightarrow> is_ValueError e | Inr r \<Rightarrow> False))"

text \<open>
  A line is recognised by a marker when the marker occurs in it; the field read from it
  is the text after the first occurrence of the marker.
\<close>

definition has_marker :: "pystr \<Rightarrow> pystr \<Rightarrow> bool" where
  "has_marker line marker = (0 \<le> find_str line marker)"

definition text_after :: "pystr \<Rightarrow> pystr \<Rightarrow> pystr" where
  "text_after line marker = drop (nat (find_str line marker + int (length marker))) line"



text \<open>
  What the claims about \<open>to_upper\<close> need of the uppercase table: the mapping of a
  character that is not whitespace contains no whitespace, mapping the characters of a
  mapping again changes nothing, and \<open>;\<close> is mapped to itself. Python's table has the
  three properties.
\<close>

definition upper_table :: "(nat \<Rightarrow> pystr) \<Rightarrow> bool" where
  "upper_table up =
     ((\<forall>c. \<not> is_space c \<longrightarrow> (\<forall>d\<in>set (up c). \<not> is_space d))
      \<and> (\<forall>c. concat (map up (up c)) = up c)
      \<and> up 0x3B = [0x3B])"

text \<open>
  A table for running examples: Python's uppercase mapping of the code points below 256
  (\<open>a\<close> to \<open>z\<close>, the micro sign, the sharp s, the accented Latin-1 letters and
  \<open>U+00FF\<close>); every other code point is left as it is.
\<close>

definition upper_latin1 :: "nat \<Rightarrow> pystr" where
  "upper_latin1 c =
     (if 0x61 \<le> c \<and> c \<le> 0x7A then [c - 0x20]
      else if c = 0xB5 then [0x39C]
      else if c = 0xDF then [0x53, 0x53]
      else if 0xE0 \<le> c \<and> c \<le> 0xFE \<and> c \<noteq> 0xF7 then [c - 0x20]
      else if c = 0xFF then [0x178]
      else [c])"

section \<open>Words and joins\<close>

lemma str_semicolon: "str '';'' = [0x3B]"
  by (simp add: str_def)

lemma is_space_semicolon: "\<not> is_space 0x3B"
  by (simp add: is_space_def)

text \<open>Every word that \<open>split()\<close> returns is non-empty and free of whitespace.\<close>

lemma words_from_words:
  "\<forall>c\<in>set cur. \<not> is_space c \<Longrightarrow> t \<in> set (words_from cur s)
     \<Longrightarrow> t \<noteq> [] \<and> (\<forall>c\<in>set t. \<not> is_space c)"
proof (induction s arbitrary: cur)
  case Nil
  then show ?case by (auto split: if_splits)
next
  case (Cons a s)
  show ?case
  proof (cases "is_space a")
    case True
    with Cons.prems have "t = cur \<and> cur \<noteq> [] \<or> t \<in> set (words_from [] s)"
      by (auto split: if_splits)
    then show ?thesis
      using Cons.prems(1) Cons.IH [of "[]"] by auto
  next
    case False
    with Cons.prems have "t \<in> set (words_from (cur @ [a]) s)" by simp
    moreover from False Cons.prems(1) have "\<forall>c\<in>set (cur @ [a]). \<not> is_space c" by simp
    ultimately show ?thesis by (rule Cons.IH [rotated])
  qed
qed

lemma words_from_one_word:
  "\<forall>c\<in>set s. \<not> is_space c \<Longrightarrow> words_from cur s = (if cur @ s = [] then [] else [cur @ s])"
  by (induction s arbitrary: cur) auto

lemma split_ws_words: "t \<in> set (split_ws s) \<Longrightarrow> t \<noteq> [] \<and> (\<forall>c\<in>set t. \<not> is_space c)"
  unfolding split_ws_def using words_from_words [of "[]" t s] by simp

lemma split_ws_one_word:
  "s \<noteq> [] \<Longrightarrow> \<forall>c\<in>set s. \<not> is_space c \<Longrightarrow> split_ws s = [s]"
  by (simp add: split_ws_def words_from_one_word)

lemma split_ws_Nil: "split_ws [] = []"
  by (simp add: split_ws_def)

lemma join_str_no_space:
  "\<forall>t\<in>set ts. \<forall>c\<in>set t. \<not> is_space c \<Longrightarrow> \<forall>c\<in>set sep. \<not> is_space c
     \<Longrightarrow> \<forall>c\<in>set (join_str sep ts). \<not> is_space c"
  by (induction sep ts rule: join_str.induct) auto

lemma join_str_not_empty:
  "ts \<noteq> [] \<Longrightarrow> \<forall>t\<in>set ts. t \<noteq> [] \<Longrightarrow> join_str sep ts \<noteq> []"
  by (induction sep ts rule: join_str.induct) auto

text \<open>Words joined with \<open>;\<close> are one word, or nothing at all.\<close>

lemma split_ws_join_no_space:
  assumes "\<forall>t\<in>set ts. \<forall>c\<in>set t. \<not> is_space c"
  shows "split_ws (join_str (str '';'') ts)
           = (if join_str (str '';'') ts = [] then [] else [join_str (str '';'') ts])"
proof (cases "join_str (str '';'') ts = []")
  case True
  then show ?thesis by (simp add: split_ws_Nil)
next
  case False
  have "\<forall>c\<in>set (join_str (str '';'') ts). \<not> is_space c"
    using assms by (rule join_str_no_space) (simp add: str_semicolon is_space_semicolon)
  with False have "split_ws (join_str (str '';'') ts) = [join_str (str '';'') ts]"
    by (rule split_ws_one_word)
  with False show ?thesis by simp
qed

lemma split_ws_join_words:
  assumes "ts \<noteq> []" and "\<forall>t\<in>set ts. t \<noteq> [] \<and> (\<forall>c\<in>set t. \<not> is_space c)"
  shows "split_ws (join_str (str '';'') ts) = [join_str (str '';'') ts]"
proof -
  from assms have "join_str (str '';'') ts \<noteq> []" by (simp add: join_str_not_empty)
  moreover from assms(2) have "\<forall>t\<in>set ts. \<forall>c\<in>set t. \<not> is_space c" by simp
  ultimately show ?thesis by (simp add: split_ws_join_no_space)
qed

lemma upper_str_append: "upper_str up (x @ y) = upper_str up x @ upper_str up y"
  by (simp add: upper_str_def)

lemma upper_str_join:
  assumes "up 0x3B = [0x3B]"
  shows "upper_str up (join_str (str '';'') ts) = join_str (str '';'') (map (upper_str up) ts)"
proof (induction ts rule: induct_list012)
  case 1
  show ?case by (simp add: upper_str_def)
next
  case (2 x)
  show ?case by simp
next
  case (3 x y zs)
  have "upper_str up (str '';'') = str '';''"
    using assms by (simp add: upper_str_def str_semicolon)
  with 3 show ?case by (simp add: upper_str_append)
qed

lemma upper_str_idem:
  assumes "\<forall>c. concat (map up (up c)) = up c"
  shows "upper_str up (upper_str up s) = upper_str up s"
proof (induction s)
  case Nil
  show ?case by (simp add: upper_str_def)
next
  case (Cons c s)
  have "upper_str up (up c) = up c"
    using assms by (simp add: upper_str_def)
  moreover have "upper_str up (c # s) = up c @ upper_str up s"
    by (simp add: upper_str_def)
  ultimately show ?case using Cons.IH by (simp add: upper_str_append)
qed

lemma upper_str_no_space:
  assumes "\<forall>c. \<not> is_space c \<longrightarrow> (\<forall>d\<in>set (up c). \<not> is_space d)"
    and "\<forall>c\<in>set t. \<not> is_space c"
  shows "\<forall>d\<in>set (upper_str up t). \<not> is_space d"
  using assms by (auto simp: upper_str_def)

lemma upper_table_latin1: "upper_table upper_latin1"
proof -
  have a: "\<forall>c. \<not> is_space c \<longrightarrow> (\<forall>d\<in>set (upper_latin1 c). \<not> is_space d)"
    by (auto simp: upper_latin1_def is_space_def)
  have b: "\<forall>c. concat (map upper_latin1 (upper_latin1 c)) = upper_latin1 c"
    by (auto simp: upper_latin1_def)
  have c: "upper_latin1 0x3B = [0x3B]"
    by (simp add: upper_latin1_def)
  from a b c show ?thesis unfolding upper_table_def by (intro conjI)
qed

lemma join_single_chars:
  "join_str (str '';'') (map (\<lambda>c. [c]) xs) = butlast (concat (map (\<lambda>c. [c, 0x3B]) xs))"
proof (induction xs rule: induct_list012)
  case 1
  show ?case by simp
next
  case (2 x)
  show ?case by simp
next
  case (3 x y zs)
  then show ?case by (simp add: str_semicolon)
qed

section \<open>The string helpers: claims\<close>

text \<open>
  Claim C6. \<open>to_upper\<close> is idempotent: for every input string \<open>s\<close>,
  \<open>to_upper (to_upper s) = to_upper s\<close>. The uppercase table is the interpreter's; the
  claim holds for every table in which the mapping of a character that is not whitespace
  contains no whitespace, mapping twice is mapping once, and \<open>;\<close> is mapped to itself.
\<close>

theorem to_upper_idempotent:
  assumes "upper_table up"
  shows "to_upper up (to_upper up s) = to_upper up s"
proof -
  from assms have no_space: "\<forall>c. \<not> is_space c \<longrightarrow> (\<forall>d\<in>set (up c). \<not> is_space d)"
    and idem: "\<forall>c. concat (map up (up c)) = up c"
    and semicolon: "up 0x3B = [0x3B]"
    unfolding upper_table_def by blast+
  let ?us = "map (upper_str up) (split_ws s)"
  let ?out = "join_str (str '';'') ?us"
  have out: "to_upper up s = ?out" by (simp add: to_upper_def)
  have "\<forall>t\<in>set (split_ws s). \<forall>c\<in>set t. \<not> is_space c"
    using split_ws_words [of _ s] by blast
  then have words: "\<forall>t\<in>set ?us. \<forall>c\<in>set t. \<not> is_space c"
    using upper_str_no_space [OF no_space] by auto
  show ?thesis
  proof (cases "?out = []")
    case True
    with out show ?thesis by (simp add: to_upper_def split_ws_Nil)
  next
    case False
    with words have "split_ws ?out = [?out]"
      by (simp add: split_ws_join_no_space)
    then have "to_upper up ?out = upper_str up ?out"
      by (simp add: to_upper_def)
    also have "\<dots> = join_str (str '';'') (map (upper_str up) ?us)"
      using semicolon by (rule upper_str_join)
    also have "map (upper_str up) ?us = ?us"
      using upper_str_idem [OF idem] by simp
    finally show ?thesis using out by simp
  qed
qed

text \<open>
  Claim C6 on an example, with Python's table for the code points below 256: the sharp s
  becomes \<open>SS\<close>, and a second application changes nothing.
\<close>

theorem to_upper_idempotent_witness:
  "to_upper upper_latin1 (str ''go stra'' @ [0xDF] @ str ''e'') = str ''GO;STRASSE''
   \<and> to_upper upper_latin1 (to_upper upper_latin1 (str ''go stra'' @ [0xDF] @ str ''e''))
       = str ''GO;STRASSE''"
proof -
  have once: "to_upper upper_latin1 (str ''go stra'' @ [0xDF] @ str ''e'') = str ''GO;STRASSE''"
    by (simp add: to_upper_def split_ws_def is_space_def upper_str_def upper_latin1_def str_def)
  from to_upper_idempotent [OF upper_table_latin1, of "str ''go stra'' @ [0xDF] @ str ''e''"]
  have "to_upper upper_latin1 (to_upper upper_latin1 (str ''go stra'' @ [0xDF] @ str ''e''))
       = to_upper upper_latin1 (str ''go stra'' @ [0xDF] @ str ''e'')" .
  with once show ?thesis by (simp only: simp_thms)
qed

text \<open>
  Claim C7. \<open>remove_vowels\<close> drops exactly the characters \<open>a e i o u A E I O U\<close> and
  writes the characters that stay, in their order, with one \<open>;\<close> between neighbours:
  each kept character followed by \<open>;\<close>, without the last \<open>;\<close>. In particular
  \<open>remove_vowels ''Hello'' = ''H;l;l''\<close>.
\<close>

theorem remove_vowels_spec:
  "remove_vowels s =
     butlast (concat (map (\<lambda>c. [c, of_char CHR '';''])
       (filter (\<lambda>c. c \<notin> {of_char CHR ''a'', of_char CHR ''e'', of_char CHR ''i'',
                           of_char CHR ''o'', of_char CHR ''u'', of_char CHR ''A'',
                           of_char CHR ''E'', of_char CHR ''I'', of_char CHR ''O'',
                           of_char CHR ''U''}) s)))
   \<and> remove_vowels (str ''Hello'') = str ''H;l;l''"
proof
  have "set vowels = {of_char CHR ''a'', of_char CHR ''e'', of_char CHR ''i'',
                      of_char CHR ''o'', of_char CHR ''u'', of_char CHR ''A'',
                      of_char CHR ''E'', of_char CHR ''I'', of_char CHR ''O'',
                      of_char CHR ''U''}"
    by (simp add: vowels_def str_def)
  then show "remove_vowels s =
     butlast (concat (map (\<lambda>c. [c, of_char CHR '';''])
       (filter (\<lambda>c. c \<notin> {of_char CHR ''a'', of_char CHR ''e'', of_char CHR ''i'',
                           of_char CHR ''o'', of_char CHR ''u'', of_char CHR ''A'',
                           of_char CHR ''E'', of_char CHR ''I'', of_char CHR ''O'',
                           of_char CHR ''U''}) s)))"
    by (simp add: remove_vowels_def join_single_chars)
  show "remove_vowels (str ''Hello'') = str ''H;l;l''"
    by (simp add: remove_vowels_def vowels_def str_def)
qed

text \<open>
  Claim C10. \<open>reverse_words\<close> is idempotent: its output is one word, so a second
  application returns it unchanged. For an input of two or more words the second
  application therefore restores neither the words of the input nor the input.
\<close>

theorem reverse_words_idempotent:
  "reverse_words (reverse_words s) = reverse_words s
   \<and> (2 \<le> length (split_ws s) \<longrightarrow>
        split_ws (reverse_words (reverse_words s)) \<noteq> split_ws s
        \<and> reverse_words (reverse_words s) \<noteq> s)"
proof -
  let ?rs = "rev (split_ws s)"
  have words: "\<forall>t\<in>set ?rs. t \<noteq> [] \<and> (\<forall>c\<in>set t. \<not> is_space c)"
    using split_ws_words [of _ s] by simp
  have one: "split_ws (reverse_words s) = [reverse_words s]" if "split_ws s \<noteq> []"
  proof -
    from that have "?rs \<noteq> []" by simp
    then show ?thesis
      unfolding reverse_words_def Let_def using words by (rule split_ws_join_words)
  qed
  have idem: "reverse_words (reverse_words s) = reverse_words s"
  proof (cases "split_ws s = []")
    case True
    then show ?thesis by (simp add: reverse_words_def split_ws_Nil)
  next
    case False
    then have "split_ws (reverse_words s) = [reverse_words s]" by (rule one)
    then show ?thesis by (simp add: reverse_words_def [of "reverse_words s"])
  qed
  have lost: "split_ws (reverse_words (reverse_words s)) \<noteq> split_ws s
              \<and> reverse_words (reverse_words s) \<noteq> s"
    if two: "2 \<le> length (split_ws s)"
  proof -
    from two have ne: "split_ws s \<noteq> []" by auto
    then have "length (split_ws (reverse_words (reverse_words s))) = 1"
      using one idem by simp
    with two have "split_ws (reverse_words (reverse_words s)) \<noteq> split_ws s"
      by auto
    then show ?thesis by auto
  qed
  from idem lost show ?thesis by blast
qed

text \<open>
  Claim C10 on two words separated by a no-break space, which \<open>split()\<close> treats as
  whitespace: the first application gives \<open>b;a\<close>, the second leaves it.
\<close>

theorem reverse_words_idempotent_witness:
  "reverse_words (reverse_words (str ''a'' @ [0xA0] @ str ''b'')) = str ''b;a''
   \<and> 2 \<le> length (split_ws (str ''a'' @ [0xA0] @ str ''b''))
   \<and> split_ws (reverse_words (reverse_words (str ''a'' @ [0xA0] @ str ''b'')))
       \<noteq> split_ws (str ''a'' @ [0xA0] @ str ''b'')
   \<and> reverse_words (reverse_words (str ''a'' @ [0xA0] @ str ''b'')) \<noteq> str ''a'' @ [0xA0] @ str ''b''"
proof -
  let ?s = "str ''a'' @ [0xA0] @ str ''b''"
  have once: "reverse_words ?s = str ''b;a''"
    by (simp add: reverse_words_def split_ws_def is_space_def str_def)
  have two: "2 \<le> length (split_ws ?s)"
    by (simp add: split_ws_def is_space_def str_def)
  note both = reverse_words_idempotent [of ?s]
  from both have idem: "reverse_words (reverse_words ?s) = reverse_words ?s"
    by (rule conjunct1)
  note lost = both [THEN conjunct2, THEN mp, OF two]
  from idem once have twice: "reverse_words (reverse_words ?s) = str ''b;a''"
    by (simp only:)
  from twice two lost [THEN conjunct1] lost [THEN conjunct2] show ?thesis
    by (intro conjI)
qed

section \<open>The dispatcher: claims\<close>

lemma globals_not_callable:
  "globals up name = Some obj \<Longrightarrow> name \<notin> exposed \<Longrightarrow> name \<noteq> str ''main''
     \<Longrightarrow> obj = NotCallable"
  by (auto simp: globals_def exposed_def split: if_splits)

text \<open>
  Claim C8. With fewer than three entries in the argument list, \<open>main\<close> returns the
  empty string at once: nothing is looked up or called, nothing is printed and no
  exception is raised, whatever the entries are.
\<close>

theorem main_too_few_arguments:
  "length argv < 3 \<Longrightarrow> main up argv = \<lparr>printed = [], returned = Inr (Some [])\<rparr>"
  by (simp add: main_def)

theorem main_too_few_arguments_witness:
  "length [str ''frontier_utils.py'', str ''frobnicate''] < 3
   \<and> main upper_latin1 [str ''frontier_utils.py'', str ''frobnicate'']
       = \<lparr>printed = [], returned = Inr (Some [])\<rparr>"
  using main_too_few_arguments [of "[str ''frontier_utils.py'', str ''frobnicate'']" upper_latin1]
  by simp

text \<open>
  Claim C3, as stated: with at least three arguments and a second argument that is not
  one of the four exposed names, the dispatcher fails with \<open>UnknownFunction\<close>. It is
  false for the name \<open>main\<close>: the lookup in the module's namespace finds \<open>main\<close>, which
  is callable, and the call with one argument raises \<open>TypeError\<close>.
\<close>

theorem main_unknown_function_counterexample:
  "3 \<le> length [str ''frontier_utils.py'', str ''main'', str ''x'']
   \<and> [str ''frontier_utils.py'', str ''main'', str ''x''] ! 1 \<notin> exposed
   \<and> \<not> fails_UnknownFunction (main upper_latin1 [str ''frontier_utils.py'', str ''main'', str ''x''])
   \<and> returned (main upper_latin1 [str ''frontier_utils.py'', str ''main'', str ''x''])
       = Inl (TypeError (str ''main() takes 0 positional arguments but 1 was given''))"
  by (simp add: main_def globals_def exposed_def fails_UnknownFunction_def str_def)

text \<open>
  Claim C3, amended: with at least three arguments and a second argument that is neither
  one of the four exposed names nor \<open>main\<close>, the dispatcher raises \<open>ValueError\<close> (the
  name is not bound in the module, or is bound to an object that is not callable) and
  prints nothing.
\<close>

theorem main_unknown_function:
  assumes "3 \<le> length argv" and "argv ! 1 \<notin> exposed" and "argv ! 1 \<noteq> str ''main''"
  shows "fails_UnknownFunction (main up argv)"
proof (cases "globals up (argv ! 1)")
  case None
  with assms(1) show ?thesis by (simp add: main_def fails_UnknownFunction_def)
next
  case (Some obj)
  from Some assms(2,3) have "obj = NotCallable" by (rule globals_not_callable)
  with Some assms(1) show ?thesis by (simp add: main_def fails_UnknownFunction_def)
qed

theorem main_unknown_function_witness:
  "3 \<le> length [str ''frontier_utils.py'', str ''frobnicate'', str ''x'']
   \<and> [str ''frontier_utils.py'', str ''frobnicate'', str ''x''] ! 1 \<notin> exposed
   \<and> [str ''frontier_utils.py'', str ''frobnicate'', str ''x''] ! 1 \<noteq> str ''main''
   \<and> fails_UnknownFunction
       (main upper_latin1 [str ''frontier_utils.py'', str ''frobnicate'', str ''x''])"
proof -
  let ?argv = "[str ''frontier_utils.py'', str ''frobnicate'', str ''x'']"
  have l: "3 \<le> length ?argv" by simp
  have e: "?argv ! 1 \<notin> exposed" by (simp add: exposed_def str_def)
  have m: "?argv ! 1 \<noteq> str ''main''" by (simp add: str_def)
  from main_unknown_function [OF l e m, of upper_latin1] l e m show ?thesis
    by (intro conjI)
qed

section \<open>The scan of get\_ctests\<close>





lemma get_last_words: "ws \<noteq> [] \<Longrightarrow> get_last ws = Inr (last ws)"
  by (cases ws) (simp_all add: get_last_def)


lemma loop_body_no_dir:
  assumes "i + 1 < length lines" and "has_marker (lines ! i) CmdStr"
    and "split_ws (text_after (lines ! i) CmdStr) \<noteq> []"
    and "\<not> has_marker (lines ! (i + 1)) DirStr"
  shows "loop_body lines i acc = Inr (i + 2, acc)"
  using assms
  by (simp add: loop_body_def get_item_def has_marker_def text_after_def get_last_words)

lemma loop_body_no_test:
  assumes "i + 2 < length lines" and "has_marker (lines ! i) CmdStr"
    and "split_ws (text_after (lines ! i) CmdStr) \<noteq> []"
    and "has_marker (lines ! (i + 1)) DirStr"
    and "\<not> has_marker (lines ! (i + 2)) TestStr"
  shows "loop_body lines i acc = Inr (i + 3, acc)"
  using assms
  by (simp add: loop_body_def get_item_def has_marker_def text_after_def get_last_words
      numeral_3_eq_3 numeral_2_eq_2)


lemma while_loop_step:
  "i < length lines \<Longrightarrow> loop_body lines i acc = Inr (i', acc')
     \<Longrightarrow> while_loop lines i acc = while_loop lines i' acc'"
  by (subst while_loop.simps) simp








lemmas get_ctests_eval =
  get_ctests_def split_sep_def while_loop.simps loop_body_def get_item_def get_last_def split_ws_def
  is_space_def CmdStr_def DirStr_def TestStr_def fmt_record_def str_def

section \<open>get\_ctests: claims\<close>

text \<open>
  Claim C1 says that \<open>get_ctests\<close> never raises. The loop guard covers only the first
  read of an iteration: on an input whose last line is a command line, the read of the
  directory line is out of range and \<open>IndexError\<close> leaves the function.
\<close>

theorem get_ctests_truncated_group_raises:
  "get_ctests (str '': Test command: foo'') = Inl IndexError"
  by (simp add: get_ctests_eval)

text \<open>
  Claim C2, as stated: the example transcript yields \<open>/usr/bin/foo --x,--x,/tmp,mytest\<close>.
  It does not: the directory marker ends at its colon, so the space before \<open>/tmp\<close> stays
  in the field.
\<close>

theorem get_ctests_example_counterexample:
  "get_ctests (str '': Test command: /usr/bin/foo --x_NEWLINE_: Working Directory: /tmp_NEWLINE_Test #1: mytest_NEWLINE_'')
     \<noteq> Inr (str ''/usr/bin/foo --x,--x,/tmp,mytest'')"
  by (simp add: get_ctests_eval)

text \<open>
  Claim C2, amended: the example transcript yields \<open>/usr/bin/foo --x,--x, /tmp,mytest\<close>
  (the command, its last word, the working directory with its leading space, the test
  name).
\<close>

theorem get_ctests_example:
  "get_ctests (str '': Test command: /usr/bin/foo --x_NEWLINE_: Working Directory: /tmp_NEWLINE_Test #1: mytest_NEWLINE_'')
     = Inr (str ''/usr/bin/foo --x,--x, /tmp,mytest'')"
  by (simp add: get_ctests_eval)



text \<open>
  Claim C4, as stated: after a command line whose next line lacks the directory marker,
  the line after that one is not examined as a command line. It is: the iteration ends
  with the cursor two lines further, on that very line, and here it starts a group that
  is emitted. Resuming one line later would emit nothing.
\<close>

theorem missing_directory_counterexample:
  "has_marker ([str '': Test command: a'', str ''junk'', str '': Test command: b'', str '': Working Directory: d'', str ''Test t''] ! 0) CmdStr
   \<and> \<not> has_marker ([str '': Test command: a'', str ''junk'', str '': Test command: b'', str '': Working Directory: d'', str ''Test t''] ! 1) DirStr
   \<and> loop_body [str '': Test command: a'', str ''junk'', str '': Test command: b'', str '': Working Directory: d'', str ''Test t''] 0 [] = Inr (2, [])
   \<and> while_loop [str '': Test command: a'', str ''junk'', str '': Test command: b'', str '': Working Directory: d'', str ''Test t''] 0 [] = Inr [str ''b,b, d,t'']
   \<and> while_loop [str '': Test command: a'', str ''junk'', str '': Test command: b'', str '': Working Directory: d'', str ''Test t''] 3 [] = Inr []"
  by (simp add: has_marker_def while_loop.simps loop_body_def get_item_def get_last_def
      split_ws_def is_space_def CmdStr_def DirStr_def TestStr_def fmt_record_def str_def)

text \<open>
  Claim C4, amended: when a command line (with a command that is not blank) is followed
  by a line without the directory marker, no record is emitted for that attempt, the
  line without the marker is not examined as a command line, and the scan resumes at the
  line after it, which is examined as a possible command line.
\<close>

theorem missing_directory_resumes_at_next_line:
  assumes "i + 1 < length lines" and "has_marker (lines ! i) CmdStr"
    and "split_ws (text_after (lines ! i) CmdStr) \<noteq> []"
    and "\<not> has_marker (lines ! (i + 1)) DirStr"
  shows "loop_body lines i acc = Inr (i + 2, acc)
         \<and> while_loop lines i acc = while_loop lines (i + 2) acc"
proof -
  from assms have body: "loop_body lines i acc = Inr (i + 2, acc)"
    by (rule loop_body_no_dir)
  moreover from assms(1) have "i < length lines" by simp
  then have "while_loop lines i acc = while_loop lines (i + 2) acc"
    using body by (rule while_loop_step)
  ultimately show ?thesis by simp
qed

text \<open>
  Claim C4, amended, on a transcript whose second line is not a directory line.
\<close>

theorem missing_directory_resumes_at_next_line_witness:
  "0 + 1 < length [str '': Test command: a'', str ''junk'', str '': Test command: b'', str '': Working Directory: d'', str ''Test t'']
   \<and> has_marker ([str '': Test command: a'', str ''junk'', str '': Test command: b'', str '': Working Directory: d'', str ''Test t''] ! 0) CmdStr
   \<and> split_ws (text_after ([str '': Test command: a'', str ''junk'', str '': Test command: b'', str '': Working Directory: d'', str ''Test t''] ! 0) CmdStr) \<noteq> []
   \<and> \<not> has_marker ([str '': Test command: a'', str ''junk'', str '': Test command: b'', str '': Working Directory: d'', str ''Test t''] ! (0 + 1)) DirStr
   \<and> while_loop [str '': Test command: a'', str ''junk'', str '': Test command: b'', str '': Working Directory: d'', str ''Test t''] 0 []
       = while_loop [str '': Test command: a'', str ''junk'', str '': Test command: b'', str '': Working Directory: d'', str ''Test t''] (0 + 2) []"
proof -
  let ?lines = "[str '': Test command: a'', str ''junk'', str '': Test command: b'', str '': Working Directory: d'', str ''Test t'']"
  have l: "0 + 1 < length ?lines" by simp
  have c: "has_marker (?lines ! 0) CmdStr"
    by (simp add: has_marker_def CmdStr_def str_def)
  have w: "split_ws (text_after (?lines ! 0) CmdStr) \<noteq> []"
    by (simp add: text_after_def CmdStr_def split_ws_def is_space_def str_def)
  have d: "\<not> has_marker (?lines ! (0 + 1)) DirStr"
    by (simp add: has_marker_def DirStr_def str_def)
  from missing_directory_resumes_at_next_line [OF l c w d, of "[]"]
  have "while_loop ?lines 0 [] = while_loop ?lines (0 + 2) []" by (rule conjunct2)
  with l c w d show ?thesis by (intro conjI)
qed

text \<open>
  Claim C5 says that any deviation from the three-line pattern makes the scan skip
  forward, and that the emitted records appear in the output in input order. A group cut
  off by the end of the input does not make the scan skip: the read of the missing line
  raises \<open>IndexError\<close>, and the record of the complete group before it, which the same
  transcript without its last line yields, is lost.
\<close>

theorem truncated_group_loses_records:
  "get_ctests (str '': Test command: a_NEWLINE_: Working Directory: d_NEWLINE_Test t'')
     = Inr (str ''a,a, d,t'')
   \<and> get_ctests (str '': Test command: a_NEWLINE_: Working Directory: d_NEWLINE_Test t_NEWLINE_: Test command: b'')
       = Inl IndexError"
  by (simp add: get_ctests_eval)

end
